theory Spec2Isabelle
  imports Main
begin

section \<open>Python strings\<close>

text \<open>
  A Python \<open>str\<close> is a sequence of Unicode code points; it is modelled as the list of
  its code points. \<open>asc\<close> embeds an ASCII literal. Literals of the source that are not
  ASCII (the Japanese messages, sheet names and the replacement key) are written as
  lists of code points, with a translation beside them.
\<close>

type_synonym pystr = "nat list"

definition asc :: "string \<Rightarrow> pystr" where
  "asc s = map of_char s"

text \<open>\<open>s.startswith(p)\<close>, \<open>s.endswith(p)\<close> and \<open>needle in hay\<close> on strings.\<close>

fun startswith :: "'a list \<Rightarrow> 'a list \<Rightarrow> bool" where
  "startswith s [] = True"
| "startswith [] (p # ps) = False"
| "startswith (x # xs) (p # ps) = (x = p \<and> startswith xs ps)"

definition endswith :: "'a list \<Rightarrow> 'a list \<Rightarrow> bool" where
  "endswith s p = startswith (rev s) (rev p)"

fun py_in :: "'a list \<Rightarrow> 'a list \<Rightarrow> bool" where
  "py_in needle [] = (needle = [])"
| "py_in needle (h # hs) = (startswith (h # hs) needle \<or> py_in needle hs)"

text \<open>
  \<open>str.isspace\<close> of one character: the code points CPython treats as whitespace
  (bidirectional class WS, B or S, or category Zs). \<open>str.strip()\<close> with no argument
  removes them from both ends.
\<close>

definition py_isspace :: "nat \<Rightarrow> bool" where
  "py_isspace c = (c \<in> set [9, 10, 11, 12, 13, 28, 29, 30, 31, 32, 133, 160, 5760,
     8192, 8193, 8194, 8195, 8196, 8197, 8198, 8199, 8200, 8201, 8202,
     8232, 8233, 8239, 8287, 12288])"

definition py_strip :: "pystr \<Rightarrow> pystr" where
  "py_strip s = rev (dropWhile py_isspace (rev (dropWhile py_isspace s)))"

text \<open>
  Python slicing \<open>s[i:j]\<close> with \<open>0 \<le> i \<le> j\<close>: it never raises, a slice that
  reaches beyond the end is cut short.
\<close>

definition slice :: "pystr \<Rightarrow> nat \<Rightarrow> nat \<Rightarrow> pystr" where
  "slice s i j = take (j - i) (drop i s)"

section \<open>The regular expressions of the validators\<close>

text \<open>
  The source matches with Python's \<open>re\<close> module on \<open>str\<close> patterns without flags.
  The constructs its three patterns and the user-name search use are modelled:
  \<open>^\<close> (start of the string), \<open>$\<close> (end of the string, or just before a line feed
  that ends the string), a literal character, \<open>\d\<close> (any Unicode decimal digit, since
  the pattern is a \<open>str\<close> and the ASCII flag is not set), a character class of ranges,
  sequence, alternation and the counted repetition \<open>{n}\<close>.
\<close>

datatype rx = Bol | Eol | Chr nat | Dig | Cls "(nat \<times> nat) list"
  | Cat rx rx | Or rx rx | Rep nat rx

text \<open>
  The first code point of every block of ten decimal digits (Unicode general category
  Nd, Unicode 14.0): ASCII digits at 48, the full-width digits at 65296, and so on.
\<close>

definition Nd_blocks :: "nat list" where
  "Nd_blocks = [48, 1632, 1776, 1984, 2406, 2534, 2662, 2790, 2918, 3046, 3174, 3302,
     3430, 3558, 3664, 3792, 3872, 4160, 4240, 6112, 6160, 6470, 6608, 6784, 6800,
     6992, 7088, 7232, 7248, 42528, 43216, 43264, 43472, 43504, 43600, 44016, 65296,
     66720, 68912, 69734, 69872, 69942, 70096, 70384, 70736, 70864, 71248, 71360,
     71472, 71904, 72016, 72784, 73040, 73120, 92768, 92864, 93008,
     120782, 120792, 120802, 120812, 120822, 123200, 123632, 125264, 130032]"

definition unicode_decimal :: "nat \<Rightarrow> bool" where
  "unicode_decimal c = list_ex (\<lambda>b. b \<le> c \<and> c < b + 10) Nd_blocks"

definition in_ranges :: "(nat \<times> nat) list \<Rightarrow> nat \<Rightarrow> bool" where
  "in_ranges rs c = list_ex (\<lambda>r. fst r \<le> c \<and> c \<le> snd r) rs"

text \<open>
  A cursor is a position of the matcher in the subject: whether it stands at the start
  of the string, and the text that remains. The matcher returns every cursor at which
  a pattern can end: \<open>re.match\<close> and \<open>re.search\<close> are only tested for success in
  the source, so the order of the alternatives does not matter.
\<close>

type_synonym cursor = "bool \<times> pystr"

fun step_char :: "(nat \<Rightarrow> bool) \<Rightarrow> cursor \<Rightarrow> cursor list" where
  "step_char P (b, []) = []"
| "step_char P (b, x # xs) = (if P x then [(False, xs)] else [])"

primrec repeat_n :: "nat \<Rightarrow> (cursor \<Rightarrow> cursor list) \<Rightarrow> cursor \<Rightarrow> cursor list" where
  "repeat_n 0 f c = [c]"
| "repeat_n (Suc n) f c = concat (map (repeat_n n f) (f c))"

primrec rx_run :: "rx \<Rightarrow> cursor \<Rightarrow> cursor list" where
  "rx_run Bol c = (if fst c then [c] else [])"
| "rx_run Eol c = (if snd c = [] \<or> snd c = [10] then [c] else [])"
| "rx_run (Chr k) c = step_char (\<lambda>x. x = k) c"
| "rx_run Dig c = step_char unicode_decimal c"
| "rx_run (Cls rs) c = step_char (in_ranges rs) c"
| "rx_run (Cat r s) c = concat (map (rx_run s) (rx_run r c))"
| "rx_run (Or r s) c = rx_run r c @ rx_run s c"
| "rx_run (Rep n r) c = repeat_n n (rx_run r) c"

definition re_match :: "rx \<Rightarrow> pystr \<Rightarrow> bool" where
  "re_match p s = (rx_run p (True, s) \<noteq> [])"

fun search_from :: "rx \<Rightarrow> bool \<Rightarrow> pystr \<Rightarrow> bool" where
  "search_from p b [] = (rx_run p (b, []) \<noteq> [])"
| "search_from p b (x # xs) = (rx_run p (b, x # xs) \<noteq> [] \<or> search_from p False xs)"

definition re_search :: "rx \<Rightarrow> pystr \<Rightarrow> bool" where
  "re_search p s = search_from p True s"

text \<open>A pattern written as the sequence of its items; \<open>lits\<close> is a stretch of literal characters.\<close>

fun seq :: "rx list \<Rightarrow> rx" where
  "seq [] = Rep 0 Bol"
| "seq [r] = r"
| "seq (r # rs) = Cat r (seq rs)"

definition lits :: "string \<Rightarrow> rx list" where
  "lits s = map Chr (asc s)"

text \<open>
  \<open>MODEL_PATTERN = r"^(100|200|201|350|351)-\d{4}\.\d{6}$"\<close>,
  \<open>MANUFACTURING_PATTERN = r"^J000\d{4}0[1-9]00$"\<close>,
  \<open>ORDER_PATTERN = r"^[ONT]\d{4}$"\<close>, and the class searched for in a user name,
  a class of four ranges: U+3040-309F, U+30A0-30FF, U+4E00-9FAF and U+FF00-FFEF.
\<close>

definition MODEL_PATTERN :: rx where
  "MODEL_PATTERN = seq [Bol,
     Or (seq (lits ''100'')) (Or (seq (lits ''200'')) (Or (seq (lits ''201''))
       (Or (seq (lits ''350'')) (seq (lits ''351''))))),
     Chr 45, Rep 4 Dig, Chr 46, Rep 6 Dig, Eol]"

definition MANUFACTURING_PATTERN :: rx where
  "MANUFACTURING_PATTERN =
     seq ([Bol] @ lits ''J000'' @ [Rep 4 Dig, Chr 48, Cls [(49, 57)], Chr 48, Chr 48, Eol])"

definition ORDER_PATTERN :: rx where
  "ORDER_PATTERN = seq [Bol, Cls [(79, 79), (78, 78), (84, 84)], Rep 4 Dig, Eol]"

definition JAPANESE_CLASS :: rx where
  "JAPANESE_CLASS = Cls [(0x3040, 0x309F), (0x30A0, 0x30FF), (0x4E00, 0x9FAF), (0xFF00, 0xFFEF)]"

section \<open>The validators\<close>

text \<open>The dict \<open>{"valid": bool, "message": str}\<close> every validator returns.\<close>

record outcome =
  valid :: bool
  message :: pystr

definition ok :: outcome where
  "ok = \<lparr>valid = True, message = []\<rparr>"

definition fail :: "pystr \<Rightarrow> outcome" where
  "fail msg = \<lparr>valid = False, message = msg\<rparr>"

text \<open>
  The messages, in the order of the source: "enter the user name", "the user name
  cannot be blanks only", "the user name must contain Japanese characters"; "enter the
  model number" and "the format of the model number is wrong" with the format and an
  example; the same two for the manufacturing number and for the order number.
\<close>

definition MSG_USERNAME_EMPTY :: pystr where
  "MSG_USERNAME_EMPTY = [12518, 12540, 12470, 21517, 12434, 20837, 21147, 12375, 12390,
     12367, 12384, 12373, 12356, 12290]"

definition MSG_USERNAME_BLANK :: pystr where
  "MSG_USERNAME_BLANK = [12518, 12540, 12470, 21517, 12399, 31354, 30333, 12398, 12415,
     12391, 12399, 20837, 21147, 12391, 12365, 12414, 12379, 12435, 12290]"

definition MSG_USERNAME_FORMAT :: pystr where
  "MSG_USERNAME_FORMAT = [12518, 12540, 12470, 21517, 12395, 12399, 26085, 26412, 35486,
     25991, 23383, 12434, 21547, 12416, 24517, 35201, 12364, 12354, 12426, 12414, 12377,
     12290]"

definition MSG_MODEL_EMPTY :: pystr where
  "MSG_MODEL_EMPTY = [22411, 30058, 12434, 20837, 21147, 12375, 12390, 12367, 12384,
     12373, 12356, 12290]"

definition MSG_MODEL_FORMAT :: pystr where
  "MSG_MODEL_FORMAT = [22411, 30058, 12398, 24418, 24335, 12364, 27491, 12375, 12367,
     12354, 12426, 12414, 12379, 12435, 12290, 10, 24418, 24335]
     @ asc '': 100,200,201,350,351'' @ [12398, 12356, 12378, 12428, 12363]
     @ asc ''-4'' @ [26689, 25968, 23383] @ asc ''.6'' @ [26689, 25968, 23383, 10, 20363]
     @ asc '': 100-2312.003000''"

definition MSG_MANUFACTURING_EMPTY :: pystr where
  "MSG_MANUFACTURING_EMPTY = [35069, 36896, 30058, 21495, 12434, 20837, 21147, 12375,
     12390, 12367, 12384, 12373, 12356, 12290]"

definition MSG_MANUFACTURING_FORMAT :: pystr where
  "MSG_MANUFACTURING_FORMAT = [35069, 36896, 30058, 21495, 12398, 24418, 24335, 12364,
     27491, 12375, 12367, 12354, 12426, 12414, 12379, 12435, 12290, 10, 24418, 24335]
     @ asc '': J000+4'' @ [26689, 25968, 23383] @ asc ''+0+1-9+00'' @ [10, 20363]
     @ asc '': J00023150100''"

definition MSG_ORDER_EMPTY :: pystr where
  "MSG_ORDER_EMPTY = [21463, 27880, 30058, 21495, 12434, 20837, 21147, 12375, 12390,
     12367, 12384, 12373, 12356, 12290]"

definition MSG_ORDER_FORMAT :: pystr where
  "MSG_ORDER_FORMAT = [21463, 27880, 30058, 21495, 12398, 24418, 24335, 12364, 27491,
     12375, 12367, 12354, 12426, 12414, 12379, 12435, 12290, 10, 24418, 24335]
     @ asc '': O/N/T+4'' @ [26689, 25968, 23383, 10, 20363] @ asc '': O2315''"

definition validate_username :: "pystr \<Rightarrow> outcome" where
  "validate_username username =
     (if username = [] then fail MSG_USERNAME_EMPTY
      else if py_strip username = [] then fail MSG_USERNAME_BLANK
      else if \<not> re_search JAPANESE_CLASS username then fail MSG_USERNAME_FORMAT
      else ok)"

definition validate_model :: "pystr \<Rightarrow> outcome" where
  "validate_model model =
     (if model = [] then fail MSG_MODEL_EMPTY
      else if \<not> re_match MODEL_PATTERN model then fail MSG_MODEL_FORMAT
      else ok)"

definition validate_manufacturing_number :: "pystr \<Rightarrow> outcome" where
  "validate_manufacturing_number manufacturing =
     (if manufacturing = [] then fail MSG_MANUFACTURING_EMPTY
      else if \<not> re_match MANUFACTURING_PATTERN manufacturing then fail MSG_MANUFACTURING_FORMAT
      else ok)"

definition validate_order_number :: "pystr \<Rightarrow> outcome" where
  "validate_order_number order =
     (if order = [] then fail MSG_ORDER_EMPTY
      else if \<not> re_match ORDER_PATTERN order then fail MSG_ORDER_FORMAT
      else ok)"

text \<open>
  The consistency check compares \<open>manufacturing[4:8]\<close> with \<open>order[1:5]\<close>. Its message
  reads "manufacturing number and order number do not agree", then "characters 5-8 of the
  manufacturing number: " and the first slice, "characters 1-4 of the order number: " and
  the second slice, and "these must be the same".
\<close>

definition MSG_MISMATCH_HEAD :: pystr where
  "MSG_MISMATCH_HEAD = [35069, 36896, 30058, 21495, 12392, 21463, 27880, 30058, 21495,
     12364, 19968, 33268, 12375, 12414, 12379, 12435, 12290, 10, 35069, 36896, 30058,
     21495, 12398, 53, 45, 56, 25991, 23383, 30446, 58, 32]"

definition MSG_MISMATCH_MID :: pystr where
  "MSG_MISMATCH_MID = [10, 21463, 27880, 30058, 21495, 12398, 49, 45, 52, 25991, 23383,
     30446, 58, 32]"

definition MSG_MISMATCH_TAIL :: pystr where
  "MSG_MISMATCH_TAIL = [10, 12371, 12428, 12425, 12399, 21516, 12376, 12391, 12354, 12427,
     24517, 35201, 12364, 12354, 12426, 12414, 12377, 12290]"

definition validate_manufacturing_order_consistency :: "pystr \<Rightarrow> pystr \<Rightarrow> outcome" where
  "validate_manufacturing_order_consistency manufacturing order =
     (let manufacturing_middle = slice manufacturing 4 8;
          order_prefix = slice order 1 5
      in if manufacturing_middle \<noteq> order_prefix
         then fail (MSG_MISMATCH_HEAD @ manufacturing_middle @ MSG_MISMATCH_MID
                    @ order_prefix @ MSG_MISMATCH_TAIL)
         else ok)"

text \<open>
  \<open>validate_inputs\<close> builds the list of the four field results, returns at the first
  one that is not valid (the loop \<open>first_failure\<close>, which prefixes the field's name and
  \<open>": "\<close> to its message), and only then runs the consistency check. The field names
  are "user name", "model number", "manufacturing number" and "order number".
\<close>

definition FIELD_USERNAME :: pystr where
  "FIELD_USERNAME = [12518, 12540, 12470, 21517]"

definition FIELD_MODEL :: pystr where
  "FIELD_MODEL = [22411, 30058]"

definition FIELD_MANUFACTURING :: pystr where
  "FIELD_MANUFACTURING = [35069, 36896, 30058, 21495]"

definition FIELD_ORDER :: pystr where
  "FIELD_ORDER = [21463, 27880, 30058, 21495]"

fun first_failure :: "(pystr \<times> outcome) list \<Rightarrow> outcome option" where
  "first_failure [] = None"
| "first_failure ((field_name, result) # rest) =
     (if \<not> valid result then Some (fail (field_name @ asc '': '' @ message result))
      else first_failure rest)"

definition validate_inputs :: "pystr \<Rightarrow> pystr \<Rightarrow> pystr \<Rightarrow> pystr \<Rightarrow> outcome" where
  "validate_inputs username model manufacturing order =
     (let validations = [(FIELD_USERNAME, validate_username username),
                         (FIELD_MODEL, validate_model model),
                         (FIELD_MANUFACTURING, validate_manufacturing_number manufacturing),
                         (FIELD_ORDER, validate_order_number order)]
      in case first_failure validations of
           Some failure \<Rightarrow> failure
         | None \<Rightarrow>
             (let consistency_result =
                    validate_manufacturing_order_consistency manufacturing order
              in if \<not> valid consistency_result then consistency_result else ok))"

section \<open>Paths, time and the files of the two writers\<close>

text \<open>
  \<open>os.path.splitext\<close> and \<open>os.path.basename\<close>, as \<open>genericpath._splitext\<close> computes
  them from \<open>str.rfind\<close>. The path separators of the platform are a parameter:
  \<open>[47]\<close> (a slash) for \<open>posixpath\<close>, \<open>[92, 47]\<close> (backslash and slash) for
  \<open>ntpath\<close>. \<open>rfind\<close> is the index of the last character with a property, or -1.
  The extension starts at the last dot, when that dot comes after the last separator
  and some character between the two is not a dot.
\<close>

definition rfind :: "(nat \<Rightarrow> bool) \<Rightarrow> pystr \<Rightarrow> int" where
  "rfind P s = (case filter (\<lambda>i. P (s ! i)) (rev [0..<length s]) of
                  [] \<Rightarrow> - 1
                | i # _ \<Rightarrow> int i)"

definition splitext :: "nat list \<Rightarrow> pystr \<Rightarrow> pystr \<times> pystr" where
  "splitext seps p =
     (let sepIndex = rfind (\<lambda>c. c \<in> set seps) p;
          dotIndex = rfind (\<lambda>c. c = 46) p
      in if dotIndex > sepIndex
            \<and> list_ex (\<lambda>filenameIndex. p ! filenameIndex \<noteq> 46) [nat (sepIndex + 1)..<nat dotIndex]
         then (take (nat dotIndex) p, drop (nat dotIndex) p)
         else (p, []))"

definition basename :: "nat list \<Rightarrow> pystr \<Rightarrow> pystr" where
  "basename seps p = drop (nat (rfind (\<lambda>c. c \<in> set seps) p + 1)) p"

text \<open>
  \<open>str(n)\<close> of a natural number, and \<open>datetime.now().strftime("%Y%m%d_%H%M%S")\<close>:
  the year in decimal (four digits from the year 1000 on), then month, day, hour,
  minute and second, each padded with a zero to two digits.
\<close>

fun dec :: "nat \<Rightarrow> pystr" where
  "dec n = (if n < 10 then [48 + n] else dec (n div 10) @ [48 + n mod 10])"

declare dec.simps [simp del]

definition pad2 :: "nat \<Rightarrow> pystr" where
  "pad2 n = (if n < 10 then 48 # dec n else dec n)"

record datetime =
  year :: nat
  month :: nat
  day :: nat
  hour :: nat
  minute :: nat
  second :: nat

definition strftime :: "datetime \<Rightarrow> pystr" where
  "strftime now = dec (year now) @ pad2 (month now) @ pad2 (day now) @ asc ''_''
     @ pad2 (hour now) @ pad2 (minute now) @ pad2 (second now)"


text \<open>
  Both writers end with the same four lines: \<open>base_name\<close> and \<open>extension\<close> from
  \<open>os.path.splitext(file_path)\<close>, the \<open>timestamp\<close>, and
  \<open>new_file_path = f"{base_name}_processed_{timestamp}{extension}"\<close>.
\<close>

definition new_file_path :: "nat list \<Rightarrow> pystr \<Rightarrow> datetime \<Rightarrow> pystr" where
  "new_file_path seps file_path now =
     (let base_name = fst (splitext seps file_path);
          extension = snd (splitext seps file_path);
          timestamp = strftime now
      in base_name @ asc ''_processed_'' @ timestamp @ extension)"

section \<open>The word-processing document\<close>

text \<open>
  \<open>str.replace(old, new)\<close>: every occurrence of \<open>old\<close>, scanning from the left and
  continuing after each replaced occurrence; an empty \<open>old\<close> matches before every
  character and at the end.
\<close>

function py_replace :: "pystr \<Rightarrow> pystr \<Rightarrow> pystr \<Rightarrow> pystr" where
  "py_replace [] old new = (if old = [] then new else [])"
| "py_replace (c # cs) old new =
     (if old = [] then new @ c # py_replace cs old new
      else if startswith (c # cs) old then new @ py_replace (drop (length old) (c # cs)) old new
      else c # py_replace cs old new)"
  by pat_completeness auto
termination
  by (relation "measure (\<lambda>(s, old, new). length s)") auto

declare py_replace.simps(2) [simp del]

text \<open>
  python-docx keeps a document as the XML trees of its parts; the paragraph, run, table,
  cell, header and footer objects the source walks are views on the elements of these
  trees, and \<open>doc._element.iter()\<close> walks the tree of the main part itself. An element
  has a tag, an optional text and its children. lxml writes a tag as
  \<open>{namespace}local\<close>; it is modelled by the prefixed name (\<open>w:t\<close>), which ends in the same
  characters. The trees hold elements only.
\<close>

datatype node = Node (tag: string) (text_of: "pystr option") (kids: "node list")

definition has_tag :: "string \<Rightarrow> node \<Rightarrow> bool" where
  "has_tag t n = (tag n = t)"

text \<open>
  \<open>run.text\<close> read: the texts of the \<open>w:t\<close> children of the run, a tab for each
  \<open>w:tab\<close> and a line feed for each \<open>w:br\<close> or \<open>w:cr\<close>, in document order.
  \<open>run.text = s\<close> written: every child but \<open>w:rPr\<close> is removed, then the characters of
  \<open>s\<close> are appended, a tab as \<open>w:tab\<close>, a line feed or carriage return as \<open>w:br\<close>,
  and each stretch of other characters as one \<open>w:t\<close>. This is python-docx 0.8; later
  versions also read a no-break hyphen and a positional tab. In a valid document
  \<open>w:rPr\<close> is the first child of a run and occurs once.
\<close>

definition piece :: "node \<Rightarrow> pystr" where
  "piece c =
     (if tag c = ''w:t'' then (case text_of c of None \<Rightarrow> [] | Some t \<Rightarrow> t)
      else if tag c = ''w:tab'' then [9]
      else if tag c = ''w:br'' \<or> tag c = ''w:cr'' then [10]
      else [])"

definition run_text :: "node \<Rightarrow> pystr" where
  "run_text r = concat (map piece (kids r))"

definition flush :: "pystr \<Rightarrow> node list" where
  "flush buf = (if buf = [] then [] else [Node ''w:t'' (Some buf) []])"

fun append_to_run_from_text :: "pystr \<Rightarrow> pystr \<Rightarrow> node list" where
  "append_to_run_from_text buf [] = flush buf"
| "append_to_run_from_text buf (c # cs) =
     (if c = 9 then flush buf @ Node ''w:tab'' None [] # append_to_run_from_text [] cs
      else if c = 10 \<or> c = 13 then flush buf @ Node ''w:br'' None [] # append_to_run_from_text [] cs
      else append_to_run_from_text (buf @ [c]) cs)"

definition set_run_text :: "node \<Rightarrow> pystr \<Rightarrow> node" where
  "set_run_text r s =
     Node (tag r) (text_of r) (filter (has_tag ''w:rPr'') (kids r) @ append_to_run_from_text [] s)"

text \<open>
  The body of every run loop of the source:
  \<open>if search_text in run.text: run.text = run.text.replace(search_text, replace_text);
  replacement_count += 1\<close>. It returns the run and what it adds to the counter.
\<close>

definition replace_run :: "pystr \<Rightarrow> pystr \<Rightarrow> node \<Rightarrow> node \<times> nat" where
  "replace_run search_text replace_text run =
     (if py_in search_text (run_text run)
      then (set_run_text run (py_replace (run_text run) search_text replace_text), 1)
      else (run, 0))"

text \<open>
  A loop over the children of an element that a view selects (\<open>paragraph.runs\<close> are the
  \<open>w:r\<close> children of a \<open>w:p\<close>, \<open>doc.paragraphs\<close> the \<open>w:p\<close> children of the body, and
  so on): the loop body rewrites the selected child and adds to the counter, the other
  children stay.
\<close>

definition on_kids :: "(node \<Rightarrow> bool) \<Rightarrow> (node \<Rightarrow> node \<times> nat) \<Rightarrow> node \<Rightarrow> node \<times> nat" where
  "on_kids P f n =
     (let rs = map (\<lambda>k. if P k then f k else (k, 0)) (kids n)
      in (Node (tag n) (text_of n) (map fst rs), sum_list (map snd rs)))"

definition paragraph_text :: "node \<Rightarrow> pystr" where
  "paragraph_text p = concat (map run_text (filter (has_tag ''w:r'') (kids p)))"

definition runs_of_paragraph :: "pystr \<Rightarrow> pystr \<Rightarrow> node \<Rightarrow> node \<times> nat" where
  "runs_of_paragraph search_text replace_text =
     on_kids (has_tag ''w:r'') (replace_run search_text replace_text)"

text \<open>
  Pass 1, \<open>for paragraph in doc.paragraphs: if search_text in paragraph.text: for run in
  paragraph.runs\<close>, on the root element \<open>w:document\<close> of the main part.
  \<open>paragraph.text\<close> is the run texts of the paragraph put together (later versions of
  python-docx add the text of hyperlinks); a run that contains the marker makes the
  test hold, so the test never keeps such a run from being rewritten.
\<close>

definition paragraph_pass :: "pystr \<Rightarrow> pystr \<Rightarrow> node \<Rightarrow> node \<times> nat" where
  "paragraph_pass search_text replace_text =
     on_kids (has_tag ''w:body'') (on_kids (has_tag ''w:p'')
       (\<lambda>paragraph. if py_in search_text (paragraph_text paragraph)
                     then runs_of_paragraph search_text replace_text paragraph
                     else (paragraph, 0)))"

text \<open>
  Pass 2, \<open>for table in doc.tables: for row in table.rows: for cell in row.cells: for
  paragraph in cell.paragraphs: for run in paragraph.runs\<close>. \<open>row.cells\<close> is taken as
  the \<open>w:tc\<close> children of the row, each once (python-docx repeats a cell that spans
  several grid columns or rows).
\<close>

definition table_pass :: "pystr \<Rightarrow> pystr \<Rightarrow> node \<Rightarrow> node \<times> nat" where
  "table_pass search_text replace_text =
     on_kids (has_tag ''w:body'') (on_kids (has_tag ''w:tbl'') (on_kids (has_tag ''w:tr'')
       (on_kids (has_tag ''w:tc'') (on_kids (has_tag ''w:p'')
         (runs_of_paragraph search_text replace_text)))))"

text \<open>
  Pass 3 loops over \<open>doc.inline_shapes\<close> and guards its body with
  \<open>hasattr(shape, 'text_frame')\<close>. An \<open>InlineShape\<close> of python-docx has no attribute
  \<open>text_frame\<close>, so the body never runs: the pass leaves the document and the counter
  as they are.

  Pass 4 loops over the runs of the body paragraphs again and enters its body when
  \<open>run._element.tag.endswith('drawing')\<close>. There it walks \<open>run._element.iter()\<close> (the
  element and all its descendants, in document order) and tests
  \<open>search_text in text_elem.text\<close> on every element whose tag ends in \<open>t\<close>, which raises
  \<open>TypeError\<close> on an element without text; \<open>None\<close> is that exception.
\<close>

fun drawing_walk :: "pystr \<Rightarrow> pystr \<Rightarrow> node \<Rightarrow> (node \<times> nat) option"
  and drawing_walks :: "pystr \<Rightarrow> pystr \<Rightarrow> node list \<Rightarrow> (node list \<times> nat) option" where
  "drawing_walk search_text replace_text (Node tg tx ks) =
     (if endswith tg ''t'' \<and> tx = None then None
      else (let hit = (endswith tg ''t'' \<and> py_in search_text (case tx of None \<Rightarrow> [] | Some t \<Rightarrow> t));
                tx' = (if hit then map_option (\<lambda>t. py_replace t search_text replace_text) tx else tx)
            in case drawing_walks search_text replace_text ks of
                 None \<Rightarrow> None
               | Some (ks', n) \<Rightarrow> Some (Node tg tx' ks', (if hit then 1 else 0) + n)))"
| "drawing_walks search_text replace_text [] = Some ([], 0)"
| "drawing_walks search_text replace_text (k # ks) =
     (case drawing_walk search_text replace_text k of
        None \<Rightarrow> None
      | Some (k', n) \<Rightarrow>
          (case drawing_walks search_text replace_text ks of
             None \<Rightarrow> None
           | Some (ks', m) \<Rightarrow> Some (k' # ks', n + m)))"

definition on_kids_opt ::
  "(node \<Rightarrow> bool) \<Rightarrow> (node \<Rightarrow> (node \<times> nat) option) \<Rightarrow> node \<Rightarrow> (node \<times> nat) option" where
  "on_kids_opt P f n =
     (let rs = map (\<lambda>k. if P k then f k else Some (k, 0)) (kids n)
      in if list_ex (\<lambda>r. r = None) rs then None
         else Some (Node (tag n) (text_of n) (map (\<lambda>r. fst (the r)) rs),
                    sum_list (map (\<lambda>r. snd (the r)) rs)))"

definition drawing_pass :: "pystr \<Rightarrow> pystr \<Rightarrow> node \<Rightarrow> (node \<times> nat) option" where
  "drawing_pass search_text replace_text =
     on_kids_opt (has_tag ''w:body'') (on_kids_opt (has_tag ''w:p'') (on_kids_opt (has_tag ''w:r'')
       (\<lambda>run. if endswith (tag run) ''drawing''
               then drawing_walk search_text replace_text run
               else Some (run, 0))))"

text \<open>
  Pass 5, \<open>for elem in doc._element.iter(): if elem.tag.endswith('t'): if elem.text and
  search_text in elem.text\<close>: every element of the main part, the root included. The
  loop only assigns \<open>elem.text\<close>, so on a tree of elements nothing in it raises.
\<close>

fun leaf_pass :: "pystr \<Rightarrow> pystr \<Rightarrow> node \<Rightarrow> node \<times> nat" where
  "leaf_pass search_text replace_text (Node tg tx ks) =
     (let hit = (endswith tg ''t''
                 \<and> (case tx of None \<Rightarrow> False | Some t \<Rightarrow> t \<noteq> [] \<and> py_in search_text t));
          tx' = (if hit then map_option (\<lambda>t. py_replace t search_text replace_text) tx else tx);
          rs = map (leaf_pass search_text replace_text) ks
      in (Node tg tx' (map fst rs), (if hit then 1 else 0) + sum_list (map snd rs)))"

text \<open>
  Pass 6, \<open>for section in doc.sections\<close>: the header, then the footer. A section either
  has a header part of its own or uses the one of the section before it; python-docx
  looks the part up when \<open>section.header.paragraphs\<close> is read, and adds an empty default
  part to the first section when no section up to this one has any. \<open>sections\<close> holds
  for every section the root of its own header part and the root of its own footer
  part, where it has one. \<open>section.header\<close> and \<open>section.footer\<close> are objects, so the
  two \<open>if\<close> tests of the source hold.
\<close>

record document =
  root :: node
  sections :: "(node option \<times> node option) list"

definition default_part :: "string \<Rightarrow> node" where
  "default_part t = Node t None [Node ''w:p'' None [Node ''w:pPr'' None [Node ''w:pStyle'' None []]]]"

primrec definition_owner :: "node option list \<Rightarrow> nat \<Rightarrow> nat" where
  "definition_owner parts 0 = 0"
| "definition_owner parts (Suc i) =
     (if parts ! Suc i \<noteq> None then Suc i else definition_owner parts i)"

definition part_pass :: "pystr \<Rightarrow> pystr \<Rightarrow> node \<Rightarrow> node \<times> nat" where
  "part_pass search_text replace_text =
     on_kids (has_tag ''w:p'') (runs_of_paragraph search_text replace_text)"

definition visit_part ::
  "pystr \<Rightarrow> pystr \<Rightarrow> string \<Rightarrow> nat \<Rightarrow> node option list \<Rightarrow> node option list \<times> nat" where
  "visit_part search_text replace_text t i parts =
     (let j = definition_owner parts i;
          part = (case parts ! j of None \<Rightarrow> default_part t | Some h \<Rightarrow> h);
          (part', n) = part_pass search_text replace_text part
      in (parts[j := Some part'], n))"

fun section_loop ::
  "pystr \<Rightarrow> pystr \<Rightarrow> nat list \<Rightarrow> (node option \<times> node option) list \<times> nat
     \<Rightarrow> (node option \<times> node option) list \<times> nat" where
  "section_loop search_text replace_text [] st = st"
| "section_loop search_text replace_text (i # rest) (secs, count) =
     (let (hs, n) = visit_part search_text replace_text ''w:hdr'' i (map fst secs);
          (fs, m) = visit_part search_text replace_text ''w:ftr'' i (map snd secs)
      in section_loop search_text replace_text rest (zip hs fs, count + n + m))"


definition DEFAULT_WORD_FILE :: pystr where
  "DEFAULT_WORD_FILE = asc ''check2.docx''"

definition REPLACEMENT_KEY :: pystr where
  "REPLACEMENT_KEY = [26908, 26619, 23550, 35937, 24773, 22577]"

definition TITLE_SUCCESS :: pystr where
  "TITLE_SUCCESS = [25104, 21151]"

definition TITLE_ERROR :: pystr where
  "TITLE_ERROR = [12456, 12521, 12540]"

definition TITLE_WARNING :: pystr where
  "TITLE_WARNING = [35686, 21578]"



definition SHEET_FRAME_ASSEMBLY :: pystr where
  "SHEET_FRAME_ASSEMBLY = [12501, 12524, 12540, 12512, 32068, 31435, 26908, 26619, 34920]"





definition MSG_FILE_NOT_FOUND :: pystr where
  "MSG_FILE_NOT_FOUND = [12501, 12449, 12452, 12523, 12364, 35211, 12388, 12363, 12426,
     12414, 12379, 12435] @ asc '': ''"



definition MSG_NEW_FILE :: pystr where
  "MSG_NEW_FILE = [10, 26032, 12501, 12449, 12452, 12523] @ asc '': ''"


definition MSG_WORD_PRINT :: pystr where
  "MSG_WORD_PRINT = asc ''Word'' @ [12501, 12449, 12452, 12523, 20966, 29702, 12456, 12521,
     12540] @ asc '': ''"

definition MSG_WORD_RAISE :: pystr where
  "MSG_WORD_RAISE = asc ''Word'' @ [12501, 12449, 12452, 12523, 12398, 20966, 29702, 20013,
     12395, 12456, 12521, 12540, 12364, 30330, 29983, 12375, 12414, 12375, 12383] @ asc '': ''"

definition MSG_WORD_DONE :: pystr where
  "MSG_WORD_DONE = asc ''Word'' @ [12501, 12449, 12452, 12523, 12398, 20966, 29702, 12364,
     23436, 20102, 12375, 12414, 12375, 12383, 58, 10, 20803, 12501, 12449, 12452, 12523] @ asc
     '': ''"

definition MSG_COUNT :: pystr where
  "MSG_COUNT = [10, 32622, 25563, 22238, 25968] @ asc '': ''"

definition MSG_CONTENT :: pystr where
  "MSG_CONTENT = [22238, 10, 32622, 25563, 20869, 23481] @ asc '': ''"

definition MSG_KEY_NOT_FOUND :: pystr where
  "MSG_KEY_NOT_FOUND = [32622, 25563, 23550, 35937, 12398, 12461, 12540, 25991, 23383,
     21015, 12364, 35211, 12388, 12363, 12426, 12414, 12379, 12435, 12391, 12375, 12383, 12290,
     10, 26908, 32034, 23550, 35937, 12461, 12540, 25991, 23383, 21015] @ asc '': ''"

definition MSG_WORD_FAILED :: pystr where
  "MSG_WORD_FAILED = asc ''Word'' @ [12501, 12449, 12452, 12523, 12398, 20966, 29702, 12395,
     22833, 25943, 12375, 12414, 12375, 12383, 58, 10]"

section \<open>The files, the dialogs and the two writers\<close>

text \<open>
  A worksheet maps a cell address to its content; \<open>Merged\<close> is a cell inside a merged
  range, to which openpyxl refuses an assignment. A workbook maps the names of its
  sheets to the sheets: \<open>name in wb.sheetnames\<close> is \<open>wb name \<noteq> None\<close>.
\<close>

datatype cell = Text pystr | Merged

type_synonym worksheet = "pystr \<rightharpoonup> cell"

type_synonym workbook = "pystr \<rightharpoonup> worksheet"

text \<open>
  What the writers see of the outside: which paths exist; what \<open>load_workbook\<close> and
  \<open>Document\<close> return for a path (\<open>Inl\<close> is the text of the exception they raise);
  whether saving to a path raises; the message boxes shown so far; the lines printed.
\<close>

datatype dialog = Showinfo pystr pystr | Showwarning pystr pystr | Showerror pystr pystr

record world =
  present :: "pystr \<Rightarrow> bool"
  workbook_at :: "pystr \<Rightarrow> pystr + workbook"
  document_at :: "pystr \<Rightarrow> pystr + document"
  save_error :: "pystr \<Rightarrow> pystr option"
  dialogs :: "dialog list"
  console :: "pystr list"

definition popup :: "dialog \<Rightarrow> world \<Rightarrow> world" where
  "popup d w = w\<lparr>dialogs := dialogs w @ [d]\<rparr>"

text \<open>
  What a writer returns: the bare \<open>False\<close> of the missing default file, or a pair of a
  flag and a path or \<open>None\<close>.
\<close>

datatype py_result = Bare_False | Tuple bool "pystr option"


definition NONE_NOT_ITERABLE :: pystr where
  "NONE_NOT_ITERABLE = asc ''argument of type '' @ [39] @ asc ''NoneType'' @ [39]
     @ asc '' is not iterable''"

definition NONE_NOT_PATH :: pystr where
  "NONE_NOT_PATH = asc ''expected str, bytes or os.PathLike object, not NoneType''"







text \<open>
  The six passes of \<open>replace_text_in_word\<close> on the opened document, with the counter
  they share, and then the function itself: open, the passes, the new path, save. An
  exception is printed and raised again with a longer message.
\<close>

definition replace_passes :: "pystr \<Rightarrow> pystr \<Rightarrow> document \<Rightarrow> pystr + (document \<times> nat)" where
  "replace_passes search_text replace_text doc =
     (let (t1, c1) = paragraph_pass search_text replace_text (root doc);
          (t2, c2) = table_pass search_text replace_text t1
      in case drawing_pass search_text replace_text t2 of
           None \<Rightarrow> Inl NONE_NOT_ITERABLE
         | Some (t4, c4) \<Rightarrow>
             (let (t5, c5) = leaf_pass search_text replace_text t4;
                  (secs, c6) = section_loop search_text replace_text
                                 [0..<length (sections doc)] (sections doc, 0)
              in Inr (\<lparr>root = t5, sections = secs\<rparr>, c1 + c2 + c4 + c5 + c6)))"

definition word_try ::
  "nat list \<Rightarrow> datetime \<Rightarrow> world \<Rightarrow> pystr \<Rightarrow> pystr \<Rightarrow> pystr \<Rightarrow> pystr + (world \<times> nat \<times> pystr)" where
  "word_try seps now w file_path search_text replace_text =
     (case document_at w file_path of
        Inl e \<Rightarrow> Inl e
      | Inr doc \<Rightarrow>
      (case replace_passes search_text replace_text doc of
        Inl e \<Rightarrow> Inl e
      | Inr (doc', replacement_count) \<Rightarrow>
      (let path = new_file_path seps file_path now
       in case save_error w path of
            Some e \<Rightarrow> Inl e
          | None \<Rightarrow> Inr (w\<lparr>present := (present w)(path := True),
                            document_at := (document_at w)(path := Inr doc')\<rparr>,
                          replacement_count, path))))"

definition replace_text_in_word ::
  "nat list \<Rightarrow> datetime \<Rightarrow> world \<Rightarrow> pystr \<Rightarrow> pystr \<Rightarrow> pystr \<Rightarrow> world \<times> (pystr + nat \<times> pystr)" where
  "replace_text_in_word seps now w file_path search_text replace_text =
     (case word_try seps now w file_path search_text replace_text of
        Inl e \<Rightarrow> (w\<lparr>console := console w @ [MSG_WORD_PRINT @ e]\<rparr>, Inl (MSG_WORD_RAISE @ e))
      | Inr (w', replacement_count, path) \<Rightarrow> (w', Inr (replacement_count, path)))"

text \<open>
  \<open>process_word_file\<close>: the replacement text, the loop over the key strings (there is
  one), and the three ways it ends: a success box and \<open>(True, new_file_path)\<close> when the
  total is positive, a warning box and \<open>(False, None)\<close> when it is zero, an error box
  and \<open>(False, None)\<close> on an exception.
\<close>

fun py_join :: "pystr \<Rightarrow> pystr list \<Rightarrow> pystr" where
  "py_join sep [] = []"
| "py_join sep [x] = x"
| "py_join sep (x # y # ys) = x @ sep @ py_join sep (y # ys)"

fun key_loop ::
  "nat list \<Rightarrow> datetime \<Rightarrow> pystr \<Rightarrow> pystr \<Rightarrow> pystr list \<Rightarrow> world \<Rightarrow> nat \<Rightarrow> pystr option
     \<Rightarrow> world \<times> (pystr + nat \<times> pystr option)" where
  "key_loop seps now file_path replacement_text [] w total_replacements path =
     (w, Inr (total_replacements, path))"
| "key_loop seps now file_path replacement_text (key_string # rest) w total_replacements path =
     (case replace_text_in_word seps now w file_path key_string replacement_text of
        (w', Inl e) \<Rightarrow> (w', Inl e)
      | (w', Inr (count, path')) \<Rightarrow>
          key_loop seps now file_path replacement_text rest w' (total_replacements + count)
            (Some path'))"

definition process_word_file ::
  "nat list \<Rightarrow> datetime \<Rightarrow> world \<Rightarrow> pystr \<Rightarrow> pystr \<Rightarrow> pystr \<Rightarrow> pystr \<Rightarrow> pystr option
     \<Rightarrow> world \<times> py_result" where
  "process_word_file seps now w username model manufacturing order file_path =
     (let use_default = (case file_path of None \<Rightarrow> True | Some p \<Rightarrow> p = []);
          path = (case file_path of None \<Rightarrow> DEFAULT_WORD_FILE
                  | Some p \<Rightarrow> if p = [] then DEFAULT_WORD_FILE else p)
      in if use_default \<and> \<not> present w path
         then (popup (Showerror TITLE_ERROR (MSG_FILE_NOT_FOUND @ path)) w, Bare_False)
         else
           (let replacement_text = order @ asc ''/'' @ manufacturing;
                key_strings = [REPLACEMENT_KEY]
            in case key_loop seps now path replacement_text key_strings w 0 None of
                 (w', Inl e) \<Rightarrow>
                   (popup (Showerror TITLE_ERROR (MSG_WORD_FAILED @ e)) w', Tuple False None)
               | (w', Inr (total_replacements, new)) \<Rightarrow>
                   (if total_replacements > 0
                    then (case new of
                            None \<Rightarrow> (popup (Showerror TITLE_ERROR (MSG_WORD_FAILED @ NONE_NOT_PATH)) w',
                                     Tuple False None)
                          | Some new_path \<Rightarrow>
                              (popup (Showinfo TITLE_SUCCESS (MSG_WORD_DONE @ basename seps path
                                  @ MSG_NEW_FILE @ basename seps new_path
                                  @ MSG_COUNT @ dec total_replacements
                                  @ MSG_CONTENT @ replacement_text)) w',
                               Tuple True (Some new_path)))
                    else (popup (Showwarning TITLE_WARNING
                                  (MSG_KEY_NOT_FOUND @ py_join (asc '', '') key_strings)) w',
                          Tuple False None))))"

section \<open>Notions the statements use\<close>

text \<open>
  The path a writer works on: the default file name when no path (or an empty one) is
  given. The workbook \<open>write_to_excel\<close> is expected to save: the four labelled values
  in B4, B5, F4, F5 of the assembly check sheet and in B3, B4, F2, F3 of the two frame
  sheets, for the sheets that are there. \<open>writable\<close>: none of these cells of a sheet
  that is there lies inside a merged range.
\<close>

definition source_path :: "pystr \<Rightarrow> pystr option \<Rightarrow> pystr" where
  "source_path dflt file_path =
     (case file_path of None \<Rightarrow> dflt | Some p \<Rightarrow> if p = [] then dflt else p)"


definition sheet_writable :: "pystr \<Rightarrow> pystr list \<Rightarrow> workbook \<Rightarrow> bool" where
  "sheet_writable name addresses wb =
     (case wb name of None \<Rightarrow> True
      | Some ws \<Rightarrow> list_all (\<lambda>a. ws a \<noteq> Some Merged) addresses)"


text \<open>Example inputs: a time, a workbook with the third sheet only, and the files.\<close>

definition sample_now :: datetime where
  "sample_now = \<lparr>year = 2026, month = 11, day = 4, hour = 21, minute = 29, second = 5\<rparr>"


definition sample_workbook :: workbook where
  "sample_workbook = [SHEET_FRAME_ASSEMBLY \<mapsto> [asc ''A1'' \<mapsto> Text (asc ''title'')]]"

definition sample_run :: "pystr \<Rightarrow> node" where
  "sample_run t = Node ''w:r'' None [Node ''w:rPr'' None [], Node ''w:t'' (Some t) []]"

text \<open>
  A document with the key twice in one run of a body paragraph, once in a table cell and
  once in the header of its only section, which has no footer; and a document without
  the key.
\<close>

definition sample_document :: document where
  "sample_document =
     \<lparr>root = Node ''w:document'' None [Node ''w:body'' None
        [Node ''w:p'' None [sample_run (REPLACEMENT_KEY @ asc '' and '' @ REPLACEMENT_KEY)],
         Node ''w:tbl'' None [Node ''w:tr'' None [Node ''w:tc'' None
           [Node ''w:p'' None [sample_run REPLACEMENT_KEY]]]],
         Node ''w:sectPr'' None []]],
      sections = [(Some (Node ''w:hdr'' None
                     [Node ''w:p'' None [sample_run (asc ''No. '' @ REPLACEMENT_KEY)]]), None)]\<rparr>"

definition plain_document :: document where
  "plain_document =
     \<lparr>root = Node ''w:document'' None [Node ''w:body'' None
        [Node ''w:p'' None [sample_run (asc ''hello'')], Node ''w:sectPr'' None []]],
      sections = [(None, None)]\<rparr>"

definition sample_world :: world where
  "sample_world =
     \<lparr>present = (\<lambda>p. p = asc ''check1.xlsx'' \<or> p = asc ''check2.docx'' \<or> p = asc ''plain.docx''),
      workbook_at = (\<lambda>p. if p = asc ''check1.xlsx'' then Inr sample_workbook
                          else Inl (asc ''File is not a zip file'')),
      document_at = (\<lambda>p. if p = asc ''check2.docx'' then Inr sample_document
                          else if p = asc ''plain.docx'' then Inr plain_document
                          else Inl (asc ''Package not found'')),
      save_error = (\<lambda>p. None),
      dialogs = [],
      console = []\<rparr>"
















text \<open>The example document after the key has been replaced by \<open>O2315/J00023150100\<close>.\<close>

definition sample_replaced :: document where
  "sample_replaced =
     \<lparr>root = Node ''w:document'' None [Node ''w:body'' None
        [Node ''w:p'' None [sample_run (asc ''O2315/J00023150100 and O2315/J00023150100'')],
         Node ''w:tbl'' None [Node ''w:tr'' None [Node ''w:tc'' None
           [Node ''w:p'' None [sample_run (asc ''O2315/J00023150100'')]]]],
         Node ''w:sectPr'' None []]],
      sections = [(Some (Node ''w:hdr'' None
                     [Node ''w:p'' None [sample_run (asc ''No. O2315/J00023150100'')]]),
                   Some (default_part ''w:ftr''))]\<rparr>"

section \<open>The format rules as the specification words them\<close>

text \<open>
  The grammars of the specification, to compare the validators with: a manufacturing
  number is the fixed 12-character code \<open>J000\<close>, four digits, a zero, one digit 1-9
  and \<open>00\<close>; a model code is one of the five prefixes, \<open>-\<close>, four digits, \<open>.\<close> and
  six digits. A digit is one of \<open>0\<close> to \<open>9\<close>.
\<close>

definition ascii_digit :: "nat \<Rightarrow> bool" where
  "ascii_digit c = (48 \<le> c \<and> c \<le> 57)"

definition manufacturing_grammar :: "pystr \<Rightarrow> bool" where
  "manufacturing_grammar s =
     (length s = 12 \<and> slice s 0 4 = asc ''J000'' \<and> list_all ascii_digit (slice s 4 8)
      \<and> slice s 8 9 = asc ''0'' \<and> list_all (\<lambda>c. 49 \<le> c \<and> c \<le> 57) (slice s 9 10)
      \<and> slice s 10 12 = asc ''00'')"

definition model_grammar :: "pystr \<Rightarrow> bool" where
  "model_grammar s =
     (length s = 15
      \<and> slice s 0 3 \<in> set [asc ''100'', asc ''200'', asc ''201'', asc ''350'', asc ''351'']
      \<and> slice s 3 4 = asc ''-'' \<and> list_all ascii_digit (slice s 4 8)
      \<and> slice s 8 9 = asc ''.'' \<and> list_all ascii_digit (slice s 9 15))"

section \<open>The library models on examples\<close>

lemma splitext_examples:
  "splitext [47] (asc ''a/b.c/d'') = (asc ''a/b.c/d'', [])"
  "splitext [47] (asc ''.bashrc'') = (asc ''.bashrc'', [])"
  "splitext [47] (asc ''..x'') = (asc ''..x'', [])"
  "splitext [47] (asc ''a.b.c'') = (asc ''a.b'', asc ''.c'')"
  "splitext [47] (asc ''x.'') = (asc ''x'', asc ''.'')"
  "splitext [92, 47] (asc ''dir.d/name'') = (asc ''dir.d/name'', [])"
  "basename [47] (asc ''a/b.c/d'') = asc ''d''"
  by code_simp+

lemma py_replace_examples:
  "py_replace (asc ''aXbXc'') (asc ''X'') (asc ''Y'') = asc ''aYbYc''"
  "py_replace (asc ''aXbXc'') (asc ''x'') (asc ''Y'') = asc ''aXbXc''"
  "py_replace (asc ''abc'') [] (asc ''-'') = asc ''-a-b-c-''"
  "py_replace (asc ''aaa'') (asc ''aa'') (asc ''b'') = asc ''ba''"
  by (simp_all add: asc_def py_replace.simps)

lemma validate_username_examples:
  "validate_username [] = fail MSG_USERNAME_EMPTY"
  "validate_username [32, 12288] = fail MSG_USERNAME_BLANK"
  "validate_username (asc ''abc'') = fail MSG_USERNAME_FORMAT"
  "validate_username (asc ''abc '' @ [12510]) = ok"
  by (simp_all add: validate_username_def py_strip_def py_isspace_def re_search_def
      JAPANESE_CLASS_def in_ranges_def asc_def)

section \<open>Facts about the matcher\<close>

lemma run_Cat_Chr:
  "rx_run (Cat (Chr k) r) (b, s) \<noteq> [] \<longleftrightarrow> (\<exists>xs. s = k # xs \<and> rx_run r (False, xs) \<noteq> [])"
  by (cases s) auto

lemma run_Cat_Dig:
  "rx_run (Cat Dig r) (b, s) \<noteq> [] \<longleftrightarrow> (\<exists>x xs. s = x # xs \<and> unicode_decimal x \<and> rx_run r (False, xs) \<noteq> [])"
  by (cases s) auto

lemma run_Cat_Cls:
  "rx_run (Cat (Cls rs) r) (b, s) \<noteq> [] \<longleftrightarrow> (\<exists>x xs. s = x # xs \<and> in_ranges rs x \<and> rx_run r (False, xs) \<noteq> [])"
  by (cases s) auto

lemma run_Cat_Bol: "rx_run (Cat Bol r) (True, s) = rx_run r (True, s)"
  by simp

lemma run_Eol: "rx_run Eol (b, s) \<noteq> [] \<longleftrightarrow> s = [] \<or> s = [10]"
  by simp

lemma run_Cat_Rep_0: "rx_run (Cat (Rep 0 q) r) c = rx_run r c"
  by simp

lemma concat_bind_assoc:
  "concat (map f (concat (map g xs))) = concat (map (\<lambda>x. concat (map f (g x))) xs)"
  by (induction xs) simp_all

lemma run_Cat_unfold: "rx_run (Cat q r) = (\<lambda>x. concat (map (rx_run r) (rx_run q x)))"
  by (rule ext) simp

lemma run_Cat_Cat: "rx_run (Cat (Cat p q) r) c = rx_run (Cat p (Cat q r)) c"
  by (simp add: concat_bind_assoc run_Cat_unfold)

lemma run_Cat_Rep_Suc: "rx_run (Cat (Rep (Suc n) q) r) c = rx_run (Cat q (Cat (Rep n q) r)) c"
  by (simp add: concat_bind_assoc run_Cat_unfold)

lemma run_Cat_Rep_numeral:
  "rx_run (Cat (Rep (numeral k) q) r) c = rx_run (Cat q (Cat (Rep (pred_numeral k) q) r)) c"
  unfolding numeral_eq_Suc by (rule run_Cat_Rep_Suc)

lemma repeat_n_0: "repeat_n 0 f = (\<lambda>c. [c])"
  by (rule ext) simp

lemma run_Cat_Rep_1: "rx_run (Cat (Rep 1 q) r) c = rx_run (Cat q r) c"
  by (simp add: repeat_n_0)

lemma run_Cat_Or: "rx_run (Cat (Or p q) r) c \<noteq> [] \<longleftrightarrow> rx_run (Cat p r) c \<noteq> [] \<or> rx_run (Cat q r) c \<noteq> []"
  by simp

lemmas rx_steps = run_Cat_Chr run_Cat_Dig run_Cat_Cls run_Cat_Bol run_Eol run_Cat_Rep_0
  run_Cat_Rep_numeral run_Cat_Rep_1 run_Cat_Cat run_Cat_Or

lemma manufacturing_match:
  "re_match MANUFACTURING_PATTERN s \<longleftrightarrow>
     (\<exists>d1 d2 d3 d4 n t. s = [74, 48, 48, 48, d1, d2, d3, d4, 48, n, 48, 48] @ t
        \<and> unicode_decimal d1 \<and> unicode_decimal d2 \<and> unicode_decimal d3 \<and> unicode_decimal d4
        \<and> 49 \<le> n \<and> n \<le> 57 \<and> (t = [] \<or> t = [10]))"
  unfolding re_match_def MANUFACTURING_PATTERN_def lits_def asc_def
  apply (simp only: list.map append.simps seq.simps of_char_Char rx_steps pred_numeral_simps num.simps Num.BitM.simps)
  apply (simp add: in_ranges_def)
  apply auto
  done


lemma model_match:
  "re_match MODEL_PATTERN s \<longleftrightarrow>
     (\<exists>x y z a b c d e f g h i j t. s = [x, y, z, 45, a, b, c, d, 46, e, f, g, h, i, j] @ t
        \<and> ([x, y, z] = asc ''100'' \<or> [x, y, z] = asc ''200'' \<or> [x, y, z] = asc ''201''
           \<or> [x, y, z] = asc ''350'' \<or> [x, y, z] = asc ''351'')
        \<and> list_all unicode_decimal [a, b, c, d, e, f, g, h, i, j]
        \<and> (t = [] \<or> t = [10]))"
  unfolding re_match_def MODEL_PATTERN_def lits_def asc_def
  apply (simp only: list.map append.simps seq.simps of_char_Char rx_steps pred_numeral_simps num.simps Num.BitM.simps)
  apply simp
  apply auto
  done

lemma order_match:
  "re_match ORDER_PATTERN s \<longleftrightarrow>
     (\<exists>l a b c d t. s = [l, a, b, c, d] @ t
        \<and> (l = 79 \<or> l = 78 \<or> l = 84)
        \<and> list_all unicode_decimal [a, b, c, d]
        \<and> (t = [] \<or> t = [10]))"
  unfolding re_match_def ORDER_PATTERN_def lits_def asc_def
  apply (simp only: list.map append.simps seq.simps of_char_Char rx_steps pred_numeral_simps num.simps Num.BitM.simps)
  apply (simp add: in_ranges_def)
  apply auto
  done

lemma startswith_append: "startswith (n @ b) n"
  by (induction n) simp_all

lemma py_in_suffix: "py_in n hay \<Longrightarrow> py_in n (a @ hay)"
  by (induction a) simp_all

lemma py_in_here: "py_in n (n @ b)"
  using startswith_append [of n b] by (cases "n @ b") auto

lemma py_in_mid: "py_in n (a @ n @ b)"
  by (rule py_in_suffix) (rule py_in_here)

lemma valid_ok: "valid ok" and valid_fail: "\<not> valid (fail m)" and message_fail: "message (fail m) = m"
  by (simp_all add: ok_def fail_def)





lemma manufacturing_nomatch_empty: "\<not> re_match MANUFACTURING_PATTERN []"
  by (simp add: manufacturing_match)

lemma order_nomatch_empty: "\<not> re_match ORDER_PATTERN []"
  by (simp add: order_match)

lemma model_nomatch_empty: "\<not> re_match MODEL_PATTERN []"
  by (simp add: model_match)

lemma manufacturing_valid_iff:
  "valid (validate_manufacturing_number m) \<longleftrightarrow> re_match MANUFACTURING_PATTERN m"
  using manufacturing_nomatch_empty
  by (cases "m = []") (simp_all add: validate_manufacturing_number_def valid_ok valid_fail)

lemma order_valid_iff:
  "valid (validate_order_number od) \<longleftrightarrow> re_match ORDER_PATTERN od"
  using order_nomatch_empty
  by (cases "od = []") (simp_all add: validate_order_number_def valid_ok valid_fail)

lemma model_valid_iff:
  "valid (validate_model m) \<longleftrightarrow> re_match MODEL_PATTERN m"
  using model_nomatch_empty
  by (cases "m = []") (simp_all add: validate_model_def valid_ok valid_fail)

lemma unicode_decimal_ascii: "c < 128 \<Longrightarrow> unicode_decimal c \<longleftrightarrow> ascii_digit c"
  unfolding unicode_decimal_def Nd_blocks_def ascii_digit_def by (simp add: list_ex_iff) arith

lemma length_12:
  "length s = 12 \<Longrightarrow> \<exists>a b c d e f g h i j k l. s = [a, b, c, d, e, f, g, h, i, j, k, l]"
  by (clarsimp simp add: eval_nat_numeral length_Suc_conv)

lemma length_15:
  "length s = 15 \<Longrightarrow> \<exists>a b c d e f g h i j k l m n p. s = [a, b, c, d, e, f, g, h, i, j, k, l, m, n, p]"
  by (clarsimp simp add: eval_nat_numeral length_Suc_conv)

lemma asc_simps:
  "asc ''J000'' = [74, 48, 48, 48]" "asc ''0'' = [48]" "asc ''00'' = [48, 48]"
  "asc ''100'' = [49, 48, 48]" "asc ''200'' = [50, 48, 48]" "asc ''201'' = [50, 48, 49]"
  "asc ''350'' = [51, 53, 48]" "asc ''351'' = [51, 53, 49]" "asc ''-'' = [45]" "asc ''.'' = [46]"
  by (simp_all add: asc_def)

lemma manufacturing_grammar_match:
  assumes "manufacturing_grammar s"
  shows "re_match MANUFACTURING_PATTERN s"
proof -
  from assms have "length s = 12" by (simp add: manufacturing_grammar_def)
  from length_12 [OF this] obtain a b c d e f g h i j k l
    where s: "s = [a, b, c, d, e, f, g, h, i, j, k, l]"
    by (elim exE)
  from assms show ?thesis
    unfolding manufacturing_match s manufacturing_grammar_def
    by (simp add: slice_def asc_simps unicode_decimal_ascii ascii_digit_def)
qed

lemma manufacturing_match_grammar:
  assumes "re_match MANUFACTURING_PATTERN s" and "list_all (\<lambda>c. c < 128) s" and "\<not> endswith s [10]"
  shows "manufacturing_grammar s"
proof -
  from assms(1) obtain d1 d2 d3 d4 n t where
    s: "s = [74, 48, 48, 48, d1, d2, d3, d4, 48, n, 48, 48] @ t"
    and d: "unicode_decimal d1" "unicode_decimal d2" "unicode_decimal d3" "unicode_decimal d4"
    and n: "49 \<le> n" "n \<le> 57" and t: "t = [] \<or> t = [10]"
    unfolding manufacturing_match by (elim exE conjE)
  from assms(3) t have t0: "t = []"
    by (auto simp add: s endswith_def)
  from assms(2) have "d1 < 128" "d2 < 128" "d3 < 128" "d4 < 128"
    by (simp_all add: s)
  with d have "ascii_digit d1" "ascii_digit d2" "ascii_digit d3" "ascii_digit d4"
    by (simp_all add: unicode_decimal_ascii)
  with n show ?thesis
    by (simp add: manufacturing_grammar_def s t0 slice_def asc_simps)
qed


lemma model_grammar_match:
  assumes "model_grammar s"
  shows "re_match MODEL_PATTERN s"
proof -
  from assms have "length s = 15" by (simp add: model_grammar_def)
  from length_15 [OF this] obtain a b c d e f g h i j k l m n p
    where s: "s = [a, b, c, d, e, f, g, h, i, j, k, l, m, n, p]"
    by (elim exE)
  from assms show ?thesis
    unfolding model_match s model_grammar_def
    by (simp add: slice_def asc_simps unicode_decimal_ascii ascii_digit_def)
qed

lemma model_match_grammar:
  assumes "re_match MODEL_PATTERN s" and "list_all (\<lambda>c. c < 128) s" and "\<not> endswith s [10]"
  shows "model_grammar s"
proof -
  from assms(1) obtain x y z a b c d e f g h i j t where
    s: "s = [x, y, z, 45, a, b, c, d, 46, e, f, g, h, i, j] @ t"
    and p: "[x, y, z] = asc ''100'' \<or> [x, y, z] = asc ''200'' \<or> [x, y, z] = asc ''201''
           \<or> [x, y, z] = asc ''350'' \<or> [x, y, z] = asc ''351''"
    and dg: "list_all unicode_decimal [a, b, c, d, e, f, g, h, i, j]"
    and t: "t = [] \<or> t = [10]"
    unfolding model_match by (elim exE conjE)
  from assms(3) t have t0: "t = []"
    by (auto simp add: s endswith_def)
  from assms(2) have "list_all (\<lambda>c. c < 128) [a, b, c, d, e, f, g, h, i, j]"
    by (simp add: s)
  with dg have "list_all ascii_digit [a, b, c, d, e, f, g, h, i, j]"
    by (simp add: unicode_decimal_ascii)
  with p show ?thesis
    by (simp add: model_grammar_def s t0 slice_def) (simp add: asc_def)
qed

text \<open>
  Claim C1, as amended. \<open>validate_manufacturing_number\<close> fails with the "enter the
  manufacturing number" message on the empty string; any other string of ASCII characters
  that does not end in a line feed is accepted if and only if the whole string is the
  12-character code of the grammar, and fails with the format message otherwise.
\<close>

theorem validate_manufacturing_number_grammar:
  assumes "list_all (\<lambda>c. c < 128) s" and "\<not> endswith s [10]"
  shows "validate_manufacturing_number s =
           (if s = [] then fail MSG_MANUFACTURING_EMPTY
            else if manufacturing_grammar s then ok
            else fail MSG_MANUFACTURING_FORMAT)"
proof -
  have "re_match MANUFACTURING_PATTERN s \<longleftrightarrow> manufacturing_grammar s"
    using manufacturing_grammar_match manufacturing_match_grammar [OF _ assms] by blast
  then show ?thesis
    by (simp add: validate_manufacturing_number_def)
qed

lemma validate_model_grammar:
  assumes "list_all (\<lambda>c. c < 128) s" and "\<not> endswith s [10]"
  shows "validate_model s =
           (if s = [] then fail MSG_MODEL_EMPTY
            else if model_grammar s then ok
            else fail MSG_MODEL_FORMAT)"
proof -
  have "re_match MODEL_PATTERN s \<longleftrightarrow> model_grammar s"
    using model_grammar_match model_match_grammar [OF _ assms] by blast
  then show ?thesis
    by (simp add: validate_model_def)
qed

text \<open>
  Claim C2. For a manufacturing number and an order number that both pass their
  validators, the two slices the consistency check compares are the characters at
  positions 5-8 of the manufacturing number and at positions 2-5 of the order number
  (counted from 1); the check passes if and only if these two segments are equal, and
  when it fails the message contains both segments.
\<close>

theorem consistency_iff_segments:
  assumes "valid (validate_manufacturing_number m)" and "valid (validate_order_number od)"
  shows "slice m 4 8 = [m ! 4, m ! 5, m ! 6, m ! 7] \<and> slice od 1 5 = [od ! 1, od ! 2, od ! 3, od ! 4]
     \<and> (valid (validate_manufacturing_order_consistency m od)
          \<longleftrightarrow> [m ! 4, m ! 5, m ! 6, m ! 7] = [od ! 1, od ! 2, od ! 3, od ! 4])
     \<and> (valid (validate_manufacturing_order_consistency m od)
        \<or> py_in [m ! 4, m ! 5, m ! 6, m ! 7] (message (validate_manufacturing_order_consistency m od))
          \<and> py_in [od ! 1, od ! 2, od ! 3, od ! 4] (message (validate_manufacturing_order_consistency m od)))"
proof -
  from assms(1) obtain d1 d2 d3 d4 n t where m: "m = [74, 48, 48, 48, d1, d2, d3, d4, 48, n, 48, 48] @ t"
    unfolding manufacturing_valid_iff manufacturing_match by (elim exE conjE)
  from assms(2) obtain l a b c d u where o: "od = [l, a, b, c, d] @ u"
    unfolding order_valid_iff order_match by (elim exE conjE)
  have sm: "slice m 4 8 = [m ! 4, m ! 5, m ! 6, m ! 7]"
    by (simp add: m slice_def)
  have so: "slice od 1 5 = [od ! 1, od ! 2, od ! 3, od ! 4]"
    by (simp add: o slice_def)
  let ?r = "validate_manufacturing_order_consistency m od"
  have v: "valid ?r \<longleftrightarrow> slice m 4 8 = slice od 1 5"
    by (simp add: validate_manufacturing_order_consistency_def Let_def valid_ok valid_fail)
  have msg: "\<not> valid ?r \<Longrightarrow> message ?r = MSG_MISMATCH_HEAD @ slice m 4 8 @ (MSG_MISMATCH_MID
                    @ slice od 1 5 @ MSG_MISMATCH_TAIL)"
    by (simp add: validate_manufacturing_order_consistency_def Let_def valid_ok valid_fail message_fail split: if_splits)
  show ?thesis
  proof (cases "valid ?r")
    case True
    with v show ?thesis unfolding sm so by simp
  next
    case False
    have in1: "py_in (slice m 4 8) (message ?r)"
      unfolding msg [OF False] by (rule py_in_mid)
    have "message ?r = (MSG_MISMATCH_HEAD @ slice m 4 8 @ MSG_MISMATCH_MID)
                    @ slice od 1 5 @ MSG_MISMATCH_TAIL"
      unfolding msg [OF False] by simp
    then have in2: "py_in (slice od 1 5) (message ?r)"
      by (simp only: py_in_mid)
    from False v in1 in2 show ?thesis unfolding sm so by simp
  qed
qed


lemma first_failure_four:
  "first_failure [(n1, r1), (n2, r2), (n3, r3), (n4, r4)] =
     (if \<not> valid r1 then Some (fail (n1 @ asc '': '' @ message r1))
      else if \<not> valid r2 then Some (fail (n2 @ asc '': '' @ message r2))
      else if \<not> valid r3 then Some (fail (n3 @ asc '': '' @ message r3))
      else if \<not> valid r4 then Some (fail (n4 @ asc '': '' @ message r4))
      else None)"
  by simp

text \<open>
  Claim C3. \<open>validate_inputs\<close> is a function of its four strings. It returns the
  failure of the first field that fails, in the order user name, model, manufacturing
  number, order number, with the field's name before the message; the consistency
  result only decides when all four fields pass; and the result is valid exactly when
  the four field checks and the consistency check all pass.
\<close>

theorem validate_inputs_first_failure:
  "validate_inputs username model manufacturing order =
     (if \<not> valid (validate_username username)
        then fail (FIELD_USERNAME @ asc '': '' @ message (validate_username username))
      else if \<not> valid (validate_model model)
        then fail (FIELD_MODEL @ asc '': '' @ message (validate_model model))
      else if \<not> valid (validate_manufacturing_number manufacturing)
        then fail (FIELD_MANUFACTURING @ asc '': '' @ message (validate_manufacturing_number manufacturing))
      else if \<not> valid (validate_order_number order)
        then fail (FIELD_ORDER @ asc '': '' @ message (validate_order_number order))
      else if \<not> valid (validate_manufacturing_order_consistency manufacturing order)
        then validate_manufacturing_order_consistency manufacturing order
      else ok)
   \<and> (valid (validate_inputs username model manufacturing order) \<longleftrightarrow>
        valid (validate_username username) \<and> valid (validate_model model)
        \<and> valid (validate_manufacturing_number manufacturing) \<and> valid (validate_order_number order)
        \<and> valid (validate_manufacturing_order_consistency manufacturing order))"
  unfolding validate_inputs_def Let_def first_failure_four
  by (simp add: valid_ok valid_fail)




lemma asc_samples:
  "asc ''J00023150100'' = [74, 48, 48, 48, 50, 51, 49, 53, 48, 49, 48, 48]"
  "asc ''J00023150200'' = [74, 48, 48, 48, 50, 51, 49, 53, 48, 50, 48, 48]"
  "asc ''J0002315100'' = [74, 48, 48, 48, 50, 51, 49, 53, 49, 48, 48]"
  "asc ''O2315'' = [79, 50, 51, 49, 53]"
  "asc ''O9999'' = [79, 57, 57, 57, 57]"
  "asc ''2315'' = [50, 51, 49, 53]"
  "asc ''9999'' = [57, 57, 57, 57]"
  "asc ''100-2312.003000'' = [49, 48, 48, 45, 50, 51, 49, 50, 46, 48, 48, 51, 48, 48, 48]"
  by (simp_all add: asc_def)

lemma manufacturing_grammar_samples:
  "manufacturing_grammar (asc ''J00023150100'')"
  "manufacturing_grammar (asc ''J00023150200'')"
  "\<not> manufacturing_grammar (asc ''J0002315100'')"
  "\<not> manufacturing_grammar (asc ''J00023150100'' @ [10])"
  by (simp_all add: manufacturing_grammar_def asc_samples asc_simps slice_def ascii_digit_def)

lemma validators_samples:
  "valid (validate_manufacturing_number (asc ''J00023150100''))"
  "valid (validate_manufacturing_number (asc ''J00023150200''))"
  "valid (validate_manufacturing_number (asc ''J00023150100'' @ [10]))"
  "valid (validate_order_number (asc ''O2315''))"
  "valid (validate_order_number (asc ''O9999''))"
  "valid (validate_model (asc ''100-2312.003000'' @ [10]))"
  unfolding manufacturing_valid_iff manufacturing_match order_valid_iff order_match
    model_valid_iff model_match asc_samples
  by (simp_all add: unicode_decimal_ascii ascii_digit_def asc_simps)

text \<open>
  Claim C1 as stated gives \<open>J00023150200\<close> as a string that does not validate. Its
  trailing segment \<open>0200\<close> is a zero, a digit 1-9 and \<open>00\<close>: the string is of the
  grammar and the validator accepts it.
\<close>

theorem validate_manufacturing_number_example_accepted:
  "valid (validate_manufacturing_number (asc ''J00023150200''))
   \<and> manufacturing_grammar (asc ''J00023150200'')"
  by (simp add: validators_samples manufacturing_grammar_samples)

text \<open>
  The amended claim at the empty string and at three strings of the specification:
  \<open>J00023150100\<close> and \<open>J00023150200\<close> validate, \<open>J0002315100\<close>, one digit short,
  fails with the format message.
\<close>

theorem validate_manufacturing_number_grammar_witness:
  "validate_manufacturing_number [] = fail MSG_MANUFACTURING_EMPTY
   \<and> validate_manufacturing_number (asc ''J00023150100'') = ok
   \<and> validate_manufacturing_number (asc ''J00023150200'') = ok
   \<and> validate_manufacturing_number (asc ''J0002315100'') = fail MSG_MANUFACTURING_FORMAT"
  using validate_manufacturing_number_grammar [of "[]"]
    validate_manufacturing_number_grammar [of "asc ''J00023150100''"]
    validate_manufacturing_number_grammar [of "asc ''J00023150200''"]
    validate_manufacturing_number_grammar [of "asc ''J0002315100''"]
    manufacturing_grammar_samples
  by (simp add: asc_samples endswith_def)


text \<open>
  The example of claim C2: manufacturing number \<open>J00023150100\<close> passes with order
  \<open>O2315\<close>, and fails with order \<open>O9999\<close> with both \<open>2315\<close> and \<open>9999\<close> in the
  message.
\<close>

theorem consistency_iff_segments_witness:
  "valid (validate_manufacturing_order_consistency (asc ''J00023150100'') (asc ''O2315''))
   \<and> \<not> valid (validate_manufacturing_order_consistency (asc ''J00023150100'') (asc ''O9999''))
   \<and> py_in (asc ''2315'') (message (validate_manufacturing_order_consistency (asc ''J00023150100'') (asc ''O9999'')))
   \<and> py_in (asc ''9999'') (message (validate_manufacturing_order_consistency (asc ''J00023150100'') (asc ''O9999'')))"
proof -
  let ?m = "asc ''J00023150100''"
  have m: "[?m ! 4, ?m ! 5, ?m ! 6, ?m ! 7] = asc ''2315''"
    by (simp add: asc_samples)
  have o1: "[asc ''O2315'' ! 1, asc ''O2315'' ! 2, asc ''O2315'' ! 3, asc ''O2315'' ! 4] = asc ''2315''"
    by (simp add: asc_samples)
  have o2: "[asc ''O9999'' ! 1, asc ''O9999'' ! 2, asc ''O9999'' ! 3, asc ''O9999'' ! 4] = asc ''9999''"
    by (simp add: asc_samples)
  have ne: "asc ''2315'' \<noteq> asc ''9999''"
    by (simp add: asc_samples)
  note a = consistency_iff_segments [OF validators_samples(1) validators_samples(4), unfolded m o1]
  note b = consistency_iff_segments [OF validators_samples(1) validators_samples(5), unfolded m o2]
  from a have "valid (validate_manufacturing_order_consistency ?m (asc ''O2315''))"
    by simp
  moreover from b ne have "\<not> valid (validate_manufacturing_order_consistency ?m (asc ''O9999''))"
    by simp
  ultimately show ?thesis
    using b by blast
qed

section \<open>Facts about paths and time stamps\<close>












lemma popup_fields:
  "workbook_at (popup d w) = workbook_at w" "document_at (popup d w) = document_at w"
  "present (popup d w) = present w" "dialogs (popup d w) = dialogs w @ [d]"
  "save_error (popup d w) = save_error w" "console (popup d w) = console w"
  by (simp_all add: popup_def)






section \<open>The spreadsheet writer\<close>





lemma sheet_writable_other:
  "name \<noteq> other \<Longrightarrow> sheet_writable name as (case wb other of None \<Rightarrow> wb | Some ws \<Rightarrow> wb(other \<mapsto> f ws))
     = sheet_writable name as wb"
  by (simp add: sheet_writable_def split: option.splits)







lemma sample_new_docx:
  "new_file_path [47] (asc ''check2.docx'') sample_now = asc ''check2_processed_20261104_212905.docx''"
  by code_simp






section \<open>Counting the text units of a pass\<close>














lemma on_kids_opt_id:
  assumes "\<And>k. k \<in> set (kids n) \<Longrightarrow> P k \<Longrightarrow> f k = Some (k, 0)"
  shows "on_kids_opt P f n = Some (n, 0)"
proof -
  have m: "map (\<lambda>k. if P k then f k else Some (k, 0)) (kids n) = map (\<lambda>k. Some (k, 0)) (kids n)"
    using assms by (intro map_cong) auto
  show ?thesis
    unfolding on_kids_opt_def Let_def m by (cases n) (auto simp add: comp_def list_ex_iff)
qed

lemma run_tag_not_drawing: "has_tag ''w:r'' k \<Longrightarrow> \<not> endswith (tag k) ''drawing''"
  by (simp add: has_tag_def endswith_def)

lemma drawing_pass_dead: "drawing_pass s r d = Some (d, 0)"
  unfolding drawing_pass_def
  by (intro on_kids_opt_id) (simp add: run_tag_not_drawing)











section \<open>Facts about string replacement\<close>










section \<open>A document without the marker\<close>






















section \<open>The passes on the example document\<close>

lemmas eval_defs = on_kids_def has_tag_def run_text_def piece_def set_run_text_def replace_run_def
  paragraph_text_def runs_of_paragraph_def flush_def sample_run_def REPLACEMENT_KEY_def asc_def
  py_replace.simps Let_def

lemma sample_pass1:
  "paragraph_pass REPLACEMENT_KEY (asc ''O2315/J00023150100'') (root sample_document) =
     (Node ''w:document'' None [Node ''w:body'' None
        [Node ''w:p'' None [sample_run (asc ''O2315/J00023150100 and O2315/J00023150100'')],
         Node ''w:tbl'' None [Node ''w:tr'' None [Node ''w:tc'' None
           [Node ''w:p'' None [sample_run REPLACEMENT_KEY]]]],
         Node ''w:sectPr'' None []]], 1)"
  by (simp add: paragraph_pass_def sample_document_def eval_defs)

lemma sample_pass2:
  "table_pass REPLACEMENT_KEY (asc ''O2315/J00023150100'')
     (Node ''w:document'' None [Node ''w:body'' None
        [Node ''w:p'' None [sample_run (asc ''O2315/J00023150100 and O2315/J00023150100'')],
         Node ''w:tbl'' None [Node ''w:tr'' None [Node ''w:tc'' None
           [Node ''w:p'' None [sample_run REPLACEMENT_KEY]]]],
         Node ''w:sectPr'' None []]]) =
     (Node ''w:document'' None [Node ''w:body'' None
        [Node ''w:p'' None [sample_run (asc ''O2315/J00023150100 and O2315/J00023150100'')],
         Node ''w:tbl'' None [Node ''w:tr'' None [Node ''w:tc'' None
           [Node ''w:p'' None [sample_run (asc ''O2315/J00023150100'')]]]],
         Node ''w:sectPr'' None []]], 1)"
  by (simp add: table_pass_def eval_defs)

lemma sample_pass5:
  "leaf_pass REPLACEMENT_KEY (asc ''O2315/J00023150100'')
     (Node ''w:document'' None [Node ''w:body'' None
        [Node ''w:p'' None [sample_run (asc ''O2315/J00023150100 and O2315/J00023150100'')],
         Node ''w:tbl'' None [Node ''w:tr'' None [Node ''w:tc'' None
           [Node ''w:p'' None [sample_run (asc ''O2315/J00023150100'')]]]],
         Node ''w:sectPr'' None []]]) =
     (Node ''w:document'' None [Node ''w:body'' None
        [Node ''w:p'' None [sample_run (asc ''O2315/J00023150100 and O2315/J00023150100'')],
         Node ''w:tbl'' None [Node ''w:tr'' None [Node ''w:tc'' None
           [Node ''w:p'' None [sample_run (asc ''O2315/J00023150100'')]]]],
         Node ''w:sectPr'' None []]], 0)"
  by (simp add: endswith_def sample_run_def REPLACEMENT_KEY_def asc_def)

lemma sample_pass6:
  "section_loop REPLACEMENT_KEY (asc ''O2315/J00023150100'') [0..<length (sections sample_document)]
     (sections sample_document, 0) =
     ([(Some (Node ''w:hdr'' None
               [Node ''w:p'' None [sample_run (asc ''No. O2315/J00023150100'')]]),
        Some (default_part ''w:ftr''))], 1)"
  by (simp add: sample_document_def visit_part_def part_pass_def default_part_def eval_defs)


lemma sample_passes:
  "replace_passes REPLACEMENT_KEY (asc ''O2315/J00023150100'') sample_document
   = Inr (sample_replaced, 3)"
  by (simp only: replace_passes_def sample_pass1 Let_def prod.case sample_pass2 drawing_pass_dead
      option.case sample_pass5 sample_pass6 sample_replaced_def) simp

lemma sample_word_try:
  "word_try [47] now sample_world (asc ''check2.docx'') REPLACEMENT_KEY (asc ''O2315/J00023150100'')
   = Inr (sample_world\<lparr>present := (present sample_world)(new_file_path [47] (asc ''check2.docx'') now := True),
           document_at := (document_at sample_world)
              (new_file_path [47] (asc ''check2.docx'') now := Inr sample_replaced)\<rparr>,
          3, new_file_path [47] (asc ''check2.docx'') now)"
proof -
  have d: "document_at sample_world (asc ''check2.docx'') = Inr sample_document"
    and e: "save_error sample_world q = None" for q
    by (simp_all add: sample_world_def)
  show ?thesis
    unfolding word_try_def d by (simp add: sample_passes e Let_def)
qed





section \<open>The document text replacer\<close>






lemma process_word_file_unfold:
  "process_word_file seps now w username model manufacturing order file_path =
     (let path = source_path DEFAULT_WORD_FILE file_path;
          replacement_text = order @ asc ''/'' @ manufacturing
      in if (file_path = None \<or> file_path = Some []) \<and> \<not> present w path
         then (popup (Showerror TITLE_ERROR (MSG_FILE_NOT_FOUND @ path)) w, Bare_False)
         else (case replace_text_in_word seps now w path REPLACEMENT_KEY replacement_text of
                 (w', Inl e) \<Rightarrow>
                   (popup (Showerror TITLE_ERROR (MSG_WORD_FAILED @ e)) w', Tuple False None)
               | (w', Inr (count, new)) \<Rightarrow>
                   if 0 < count
                   then (popup (Showinfo TITLE_SUCCESS (MSG_WORD_DONE @ basename seps path
                           @ MSG_NEW_FILE @ basename seps new @ MSG_COUNT @ dec count
                           @ MSG_CONTENT @ replacement_text)) w',
                         Tuple True (Some new))
                   else (popup (Showwarning TITLE_WARNING (MSG_KEY_NOT_FOUND @ REPLACEMENT_KEY)) w',
                         Tuple False None)))"
  by (cases file_path)
     (auto simp add: process_word_file_def source_path_def Let_def
       split: prod.splits sum.splits)



text \<open>
  Claim C10. \<open>process_word_file\<close> replaces the key by the order number, a slash and
  the manufacturing number: it is \<open>replace_text_in_word\<close> with this replacement
  text, followed by the box for the outcome. For order \<open>O2315\<close> and manufacturing
  number \<open>J00023150100\<close> the text is \<open>O2315/J00023150100\<close>, and the example
  document is saved with it in the place of every key.
\<close>

theorem replacement_text_is_order_slash_manufacturing:
  "process_word_file seps now w username model manufacturing order file_path =
     (let path = source_path DEFAULT_WORD_FILE file_path;
          replacement_text = order @ asc ''/'' @ manufacturing
      in if (file_path = None \<or> file_path = Some []) \<and> \<not> present w path
         then (popup (Showerror TITLE_ERROR (MSG_FILE_NOT_FOUND @ path)) w, Bare_False)
         else (case replace_text_in_word seps now w path REPLACEMENT_KEY replacement_text of
                 (w', Inl e) \<Rightarrow>
                   (popup (Showerror TITLE_ERROR (MSG_WORD_FAILED @ e)) w', Tuple False None)
               | (w', Inr (count, new)) \<Rightarrow>
                   if 0 < count
                   then (popup (Showinfo TITLE_SUCCESS (MSG_WORD_DONE @ basename seps path
                           @ MSG_NEW_FILE @ basename seps new @ MSG_COUNT @ dec count
                           @ MSG_CONTENT @ replacement_text)) w',
                         Tuple True (Some new))
                   else (popup (Showwarning TITLE_WARNING (MSG_KEY_NOT_FOUND @ REPLACEMENT_KEY)) w',
                         Tuple False None)))
   \<and> asc ''O2315'' @ asc ''/'' @ asc ''J00023150100'' = asc ''O2315/J00023150100''
   \<and> snd (process_word_file [47] sample_now sample_world [12510] (asc ''100-2312.003000'')
            (asc ''J00023150100'') (asc ''O2315'') None)
       = Tuple True (Some (asc ''check2_processed_20261104_212905.docx''))
   \<and> document_at (fst (process_word_file [47] sample_now sample_world [12510]
            (asc ''100-2312.003000'') (asc ''J00023150100'') (asc ''O2315'') None))
         (asc ''check2_processed_20261104_212905.docx'')
       = Inr sample_replaced"
proof -
  have j: "asc ''O2315'' @ asc ''/'' @ asc ''J00023150100'' = asc ''O2315/J00023150100''"
    by (simp add: asc_def)
  have p: "source_path DEFAULT_WORD_FILE None = asc ''check2.docx''"
    by (simp add: source_path_def DEFAULT_WORD_FILE_def)
  have e: "present sample_world (asc ''check2.docx'')"
    by (simp add: sample_world_def)
  have r: "replace_text_in_word [47] sample_now sample_world (asc ''check2.docx'') REPLACEMENT_KEY
             (asc ''O2315/J00023150100'')
           = (sample_world\<lparr>present := (present sample_world)
                 (asc ''check2_processed_20261104_212905.docx'' := True),
               document_at := (document_at sample_world)
                 (asc ''check2_processed_20261104_212905.docx'' := Inr sample_replaced)\<rparr>,
              Inr (3, asc ''check2_processed_20261104_212905.docx''))"
    by (simp add: replace_text_in_word_def sample_word_try sample_new_docx)
  have x: "snd (process_word_file [47] sample_now sample_world [12510] (asc ''100-2312.003000'')
            (asc ''J00023150100'') (asc ''O2315'') None)
       = Tuple True (Some (asc ''check2_processed_20261104_212905.docx''))
   \<and> document_at (fst (process_word_file [47] sample_now sample_world [12510]
            (asc ''100-2312.003000'') (asc ''J00023150100'') (asc ''O2315'') None))
         (asc ''check2_processed_20261104_212905.docx'')
       = Inr sample_replaced"
    unfolding process_word_file_unfold Let_def p j r
    by (simp add: e popup_fields)
  show ?thesis
    using process_word_file_unfold [of seps now w username model manufacturing order file_path] j x
    by (simp only:)
qed










end
